theory Spec2Isabelle
  imports Complex_Main "HOL-Library.Word" "HOL-Library.Char_ord" "HOL-Library.List_Lexorder"
    "HOL-Library.Multiset"
begin

unbundle bit_operations_syntax

section \<open>Values of the query service\<close>

text \<open>
  A \<open>float64\<close> is either the NaN that \<open>math.NaN()\<close> returns or a number. The program only
  copies floats (it never computes with them), so a number is carried as its value;
  \<open>Num 0\<close> is the zero value that \<open>make([]float64, n)\<close> fills a fresh slice with.
\<close>

datatype float64 = NaN | Num real

text \<open>
  A dynamically typed scalar (\<open>any\<close> in the source). \<open>VNil\<close> is the nil interface value,
  which is also what indexing a map at a missing key yields. \<open>VOther s\<close> is any other dynamic
  value, carried as its \<open>%v\<close> rendering \<open>s\<close>.
\<close>

datatype scalar = VNil | VString string | VInt int | VFloat float64 | VOther string

text \<open>
  A Go \<open>map[string]any\<close> is an association list read through \<open>map_of\<close>; the order of the
  list carries no meaning. \<open>keys\<close> are the distinct keys, \<open>len\<close> is Go's \<open>len\<close> of a map,
  \<open>lookup\<close> is \<open>m[k]\<close> (nil at a missing key), \<open>mapSet\<close> is \<open>m[k] = v\<close>.
\<close>

type_synonym gomap = "(string \<times> scalar) list"

definition keys :: "gomap \<Rightarrow> string list" where
  "keys m = remdups (map fst m)"

definition len :: "gomap \<Rightarrow> nat" where
  "len m = length (keys m)"

definition lookup :: "gomap \<Rightarrow> string \<Rightarrow> scalar" where
  "lookup m k = (case map_of m k of None \<Rightarrow> VNil | Some v \<Rightarrow> v)"

definition mapSet :: "gomap \<Rightarrow> string \<Rightarrow> scalar \<Rightarrow> gomap" where
  "mapSet m k v = (k, v) # filter (\<lambda>p. fst p \<noteq> k) m"

text \<open>The result of a query, as the transport delivers it (\<open>axiomQuery.Result\<close>).\<close>

record Aggregation =
  Alias :: string
  Value :: scalar

record EntryGroup =
  Group :: gomap
  Aggregations :: "Aggregation list"

record Interval =
  Groups :: "EntryGroup list"

record Entry =
  Time :: nat
  Data :: gomap

record Timeseries =
  Series :: "Interval list"
  Totals :: "EntryGroup list"

record Result =
  Matches :: "Entry list"
  Buckets :: Timeseries

section \<open>Widgets and terminal primitives\<close>

text \<open>
  The colours of the chart library that the program names. \<open>Default\<close> is the zero value of
  the colour type; \<open>SlateGray\<close> is the colour of a dimmed series.
\<close>

datatype AnsiColor = Default | Blue | Magenta | Cyan | Green | Yellow | Red | AliceBlue
  | Cornsilk | Crimson | DarkViolet | DeepPink | Gold | Indigo | Lavender | LightCoral
  | LightSalmon | SlateGray

definition COLORS :: "AnsiColor list" where
  "COLORS = [Blue, Magenta, Cyan, Green, Yellow, Red, AliceBlue, Cornsilk, Crimson,
     DarkViolet, DeepPink, Gold, Indigo, Lavender, LightCoral, LightSalmon]"

definition PULSE_STEP_COLORS :: "string list" where
  "PULSE_STEP_COLORS = [''#432155'', ''#4e2667'', ''#5f2d84'', ''#7938b2'', ''#8e4ec6'',
     ''#9d5bd2'', ''#8e4ec6'', ''#7938b2'', ''#5f2d84'', ''#4e2667'']"

text \<open>A \<open>lipgloss.Style\<close>: the properties the program sets, each unset in \<open>NewStyle\<close>.\<close>

record Style =
  stPadding :: "nat option"
  stForeground :: "string option"
  stBackground :: "string option"
  stBold :: "bool option"
  stWidth :: "nat option"
  stHeight :: "nat option"
  stAlignLeftTop :: bool
  stNormalBorder :: bool
  stBorderForeground :: "string option"

definition NewStyle :: Style where
  "NewStyle = \<lparr>stPadding = None, stForeground = None, stBackground = None, stBold = None,
     stWidth = None, stHeight = None, stAlignLeftTop = False, stNormalBorder = False,
     stBorderForeground = None\<rparr>"

definition tableStyle :: Style where
  "tableStyle = NewStyle\<lparr>stPadding := Some 1\<rparr>"

text \<open>The table widget (\<open>table.Model\<close>), with the accessors the program calls.\<close>

record Column =
  Title :: string
  Width :: nat

record Styles =
  Header :: Style
  Cell :: Style
  Selected :: Style

record TableModel =
  cols :: "Column list"
  rows :: "string list list"
  cursor :: int
  focus :: bool
  height :: "nat option"
  styles :: Styles

definition SetStyles :: "TableModel \<Rightarrow> Styles \<Rightarrow> TableModel" where
  "SetStyles t s = t\<lparr>styles := s\<rparr>"

definition Blur :: "TableModel \<Rightarrow> TableModel" where
  "Blur t = t\<lparr>focus := False\<rparr>"

definition Focus :: "TableModel \<Rightarrow> TableModel" where
  "Focus t = t\<lparr>focus := True\<rparr>"

definition Focused :: "TableModel \<Rightarrow> bool" where
  "Focused t = focus t"

definition Rows :: "TableModel \<Rightarrow> string list list" where
  "Rows t = rows t"

text \<open>\<open>SelectedRow\<close> is the row under the cursor, or nil (the empty row) when there is none.\<close>

definition SelectedRow :: "TableModel \<Rightarrow> string list" where
  "SelectedRow t =
     (if cursor t < 0 \<or> cursor t \<ge> int (length (rows t)) then [] else rows t ! nat (cursor t))"

text \<open>The text input (\<open>textarea.Model\<close>) and the spinner (\<open>spinner.Model\<close>).\<close>

record Textarea =
  taValue :: string
  taFocus :: bool
  taWidth :: nat
  taPlaceholder :: string

record Spinner =
  spDot :: bool
  spFrame :: nat

section \<open>The model, its events and its commands\<close>

datatype State = TYPING | QUERYING | REFRESHING

record Query =
  apl :: string
  result :: "Result option"
  err :: "string option"

record Op =
  name :: string

record QueryMeta =
  orderedGroupKeys :: "string list"
  opsCount :: nat
  intervals :: nat
  groups :: "string list"
  ops :: "Op list"
  groupColors :: "string \<rightharpoonup> AnsiColor"

record GraphData =
  title :: string
  data :: "float64 list list"
  colors :: "AnsiColor list"

text \<open>
  The events \<open>Update\<close> receives. \<open>HighlightMsg row\<close> is the general message \<open>Msg\<close> whose
  \<open>update\<close> closure is the one \<open>HighlightRow row\<close> builds (the only one the program ever
  builds). \<open>OtherMsg\<close> is any event of the toolkit that the program does not name.
\<close>

datatype Msg = KeyMsg string
  | ResultMsg string "Result option" "string option"
  | HighlightMsg "string list"
  | SpinnerTickMsg
  | RefreshMsg
  | ReRunMsg
  | PulseMsg
  | OtherMsg nat

text \<open>
  The commands \<open>Update\<close> hands back to the toolkit. \<open>QueryCmd q\<close> runs the query \<open>q\<close> on the
  transport and delivers a \<open>ResultMsg\<close>; \<open>TickCmd ms ev\<close> delivers \<open>ev\<close> after \<open>ms\<close>
  milliseconds; \<open>MsgCmd ev\<close> delivers \<open>ev\<close>; \<open>WidgetCmd\<close> is a command that a widget returned;
  \<open>NilCmd\<close> is the nil command; \<open>Batch cs\<close> is \<open>tea.Batch\<close> of the commands \<open>cs\<close>.
\<close>

datatype Cmd = Quit | SpinnerTick | QueryCmd string | TickCmd nat Msg | Blink | MsgCmd Msg
  | WidgetCmd nat | NilCmd | Batch "Cmd list"

record Model =
  ready :: bool
  textarea :: Textarea
  spinner :: Spinner
  state :: State
  query :: Query
  msg :: string
  matchesTable :: "TableModel option"
  matchesTableHighlightedIdx :: int
  graphs :: "GraphData list option"
  queryMeta :: "QueryMeta option"
  otherMsg :: string
  totalsTable :: "TableModel option"
  highlightedGroup :: string
  refreshTimeout :: int
  pulseStep :: int

text \<open>
  What the program takes from its libraries and from the Go runtime, as parameters:
  \<open>rangeOrder ks\<close> is the order in which one \<open>range\<close> loop over a map with the keys \<open>ks\<close>
  enumerates them (Go leaves it open, and it may differ from run to run);
  \<open>fmtInt\<close> and \<open>fmtFloat\<close> are \<open>%v\<close> on an integer and on a float; \<open>timeString\<close> is
  \<open>Time.String\<close>; the others are the widgets' constructors, \<open>Update\<close> and \<open>View\<close> methods and
  the layout functions.
\<close>

record env =
  rangeOrder :: "string list \<Rightarrow> string list"
  fmtInt :: "int \<Rightarrow> string"
  fmtFloat :: "float64 \<Rightarrow> string"
  timeString :: "nat \<Rightarrow> string"
  trimSpace :: "string \<Rightarrow> string"
  DefaultStyles :: Styles
  tableUpdate :: "TableModel \<Rightarrow> Msg \<Rightarrow> TableModel \<times> Cmd"
  tableView :: "TableModel \<Rightarrow> string"
  textareaNew :: Textarea
  textareaUpdate :: "Textarea \<Rightarrow> Msg \<Rightarrow> Textarea \<times> Cmd"
  textareaView :: "Textarea \<Rightarrow> string"
  spinnerNew :: Spinner
  spinnerUpdate :: "Spinner \<Rightarrow> Msg \<Rightarrow> Spinner \<times> Cmd"
  spinnerView :: "Spinner \<Rightarrow> string"
  Render :: "Style \<Rightarrow> string \<Rightarrow> string"
  JoinHorizontal :: "string list \<Rightarrow> string"
  JoinVertical :: "string list \<Rightarrow> string"
  PlotMany :: "float64 list list \<Rightarrow> nat \<Rightarrow> AnsiColor list \<Rightarrow> nat \<Rightarrow> nat \<Rightarrow> string \<Rightarrow> string"
  MarshalIndent :: "Entry \<Rightarrow> string"

text \<open>A panic of the Go runtime: a nil pointer dereference or an index out of range.\<close>

datatype panic = NilDeref | IndexOutOfRange

section \<open>Helpers\<close>

text \<open>\<open>fmt.Sprintf("%v", v)\<close> on a scalar.\<close>

definition sprintv :: "env \<Rightarrow> scalar \<Rightarrow> string" where
  "sprintv e v = (case v of VNil \<Rightarrow> ''<nil>'' | VString s \<Rightarrow> s | VInt i \<Rightarrow> fmtInt e i
     | VFloat f \<Rightarrow> fmtFloat e f | VOther s \<Rightarrow> s)"

text \<open>\<open>strings.Join\<close>.\<close>

fun Join :: "string list \<Rightarrow> string \<Rightarrow> string" where
  "Join [] sep = []"
| "Join [x] sep = x"
| "Join (x # y # ys) sep = x @ sep @ Join (y # ys) sep"

definition getGroupKey :: "env \<Rightarrow> string list \<Rightarrow> gomap \<Rightarrow> string" where
  "getGroupKey e oks grp = Join (map (\<lambda>k. sprintv e (lookup grp k)) oks) '', ''"

fun stringInSlice :: "string \<Rightarrow> string list \<Rightarrow> bool" where
  "stringInSlice str [] = False"
| "stringInSlice str (s # sl) = (if s = str then True else stringInSlice str sl)"

definition appendIfNotEmpty :: "string list \<Rightarrow> string \<Rightarrow> string list" where
  "appendIfNotEmpty sl str = (if str \<noteq> [] then sl @ [str] else sl)"

text \<open>
  \<open>hash\<close>: the 32-bit FNV-1a sum of the bytes of the string, converted to the 64-bit \<open>int\<close>
  (so it is never negative).
\<close>

definition fnv32a :: "string \<Rightarrow> 32 word" where
  "fnv32a s = fold (\<lambda>c h. (h XOR of_nat (of_char c)) * 16777619) s 2166136261"

definition hash :: "string \<Rightarrow> int" where
  "hash s = uint (fnv32a s)"

text \<open>\<open>slices.IndexFunc\<close>: the index of the first element satisfying \<open>f\<close>, or \<open>-1\<close>.\<close>

fun IndexFunc :: "'a list \<Rightarrow> ('a \<Rightarrow> bool) \<Rightarrow> int" where
  "IndexFunc [] f = -1"
| "IndexFunc (x # xs) f = (if f x then 0 else (let i = IndexFunc xs f in if i = -1 then -1 else i + 1))"

text \<open>
  \<open>sort.Search\<close> and \<open>sort.SearchStrings\<close>: binary search for the smallest index in
  \<open>[0, n]\<close> at which \<open>f\<close> holds; \<open>sort.Strings\<close> is \<open>sort\<close> on the bytewise order.
\<close>

function searchLoop :: "(nat \<Rightarrow> bool) \<Rightarrow> nat \<Rightarrow> nat \<Rightarrow> nat" where
  "searchLoop f i j =
     (if i < j then
        (let h = (i + j) div 2 in
         if \<not> f h then searchLoop f (h + 1) j else searchLoop f i h)
      else i)"
  by pat_completeness auto
termination
  by (relation "measure (\<lambda>(f, i, j). j - i)") auto

definition Search :: "nat \<Rightarrow> (nat \<Rightarrow> bool) \<Rightarrow> nat" where
  "Search n f = searchLoop f 0 n"

definition SearchStrings :: "string list \<Rightarrow> string \<Rightarrow> nat" where
  "SearchStrings a x = Search (length a) (\<lambda>i. a ! i \<ge> x)"


section \<open>Result projection\<close>

definition UpdateQuery :: "Model \<Rightarrow> string \<Rightarrow> Result option \<Rightarrow> string option \<Rightarrow> Model" where
  "UpdateQuery m a r er = m\<lparr>query := \<lparr>apl = a, result = r, err = er\<rparr>\<rparr>"

text \<open>
  The body of the inner loop of \<open>UpdateQueryMeta\<close> over the entry groups of an interval; it
  carries \<open>orderedGroupKeys\<close>, \<open>opsCount\<close> and \<open>groups\<close>.
\<close>

definition metaGroup ::
  "env \<Rightarrow> string list \<times> nat \<times> string list \<Rightarrow> EntryGroup \<Rightarrow> string list \<times> nat \<times> string list" where
  "metaGroup e acc grp = (case acc of (oks, cnt, gs) \<Rightarrow>
     (let oks1 = (if length oks = 0 \<and> len (Group grp) > 0
                  then sort (oks @ rangeOrder e (keys (Group grp))) else oks);
          cnt1 = (if length (Aggregations grp) > cnt then length (Aggregations grp) else cnt);
          key = getGroupKey e oks1 (Group grp);
          gs1 = (if \<not> stringInSlice key gs then gs @ [key] else gs)
      in (oks1, cnt1, gs1)))"

definition metaSeries :: "env \<Rightarrow> Interval list \<Rightarrow> string list \<times> nat \<times> string list" where
  "metaSeries e series =
     fold (\<lambda>interval acc. fold (\<lambda>grp acc1. metaGroup e acc1 grp) (Groups interval) acc)
       series ([], 0, [])"

definition opsAgg :: "Op list \<Rightarrow> Aggregation \<Rightarrow> Op list" where
  "opsAgg os a =
     (if IndexFunc os (\<lambda>op. name op = Alias a) = -1 then os @ [\<lparr>name = Alias a\<rparr>] else os)"

definition metaOps :: "EntryGroup list \<Rightarrow> Op list" where
  "metaOps totals =
     fold (\<lambda>total os. fold (\<lambda>a os1. opsAgg os1 a) (Aggregations total) os) totals []"

definition metaColors :: "string list \<Rightarrow> (string \<rightharpoonup> AnsiColor)" where
  "metaColors gs =
     fold (\<lambda>g gc. gc(g \<mapsto> COLORS ! nat (hash g mod int (length COLORS)))) gs Map.empty"

definition UpdateQueryMeta :: "env \<Rightarrow> Model \<Rightarrow> Result option \<Rightarrow> Model" where
  "UpdateQueryMeta e m r =
     (case r of None \<Rightarrow> m\<lparr>queryMeta := None\<rparr>
      | Some res \<Rightarrow>
          if length (Series (Buckets res)) = 0 then m\<lparr>queryMeta := None\<rparr>
          else (case metaSeries e (Series (Buckets res)) of (oks, cnt, gs0) \<Rightarrow>
            (let os = metaOps (Totals (Buckets res));
                 gs = sort gs0;
                 gc = metaColors gs
             in m\<lparr>queryMeta := Some \<lparr>orderedGroupKeys = oks, opsCount = cnt,
                    intervals = length (Series (Buckets res)), groups = gs, ops = os,
                    groupColors = gc\<rparr>\<rparr>)))"

text \<open>
  \<open>table.New\<close> with the options the program passes: the columns, the rows, the focus
  (\<open>WithFocused\<close>, off when absent) and the height (\<open>WithHeight\<close>, when given). A new table
  has its cursor on the first row and the default styles.
\<close>

definition tableNew :: "env \<Rightarrow> Column list \<Rightarrow> string list list \<Rightarrow> bool \<Rightarrow> nat option \<Rightarrow> TableModel" where
  "tableNew e columns rws foc h =
     \<lparr>cols = columns, rows = rws, cursor = 0, focus = foc, height = h, styles = DefaultStyles e\<rparr>"

definition UpdateMatchesTable :: "env \<Rightarrow> Model \<Rightarrow> Result option \<Rightarrow> Model" where
  "UpdateMatchesTable e m r =
     (let m1 = m\<lparr>matchesTableHighlightedIdx := -1\<rparr> in
      case r of None \<Rightarrow> m1\<lparr>matchesTable := None\<rparr>
      | Some res \<Rightarrow>
          (case Matches res of [] \<Rightarrow> m1\<lparr>matchesTable := None\<rparr>
           | first # _ \<Rightarrow>
              (let columns = \<lparr>Title = ''_time'', Width = 20\<rparr> #
                     map (\<lambda>k. \<lparr>Title = k, Width = 10\<rparr>) (rangeOrder e (keys (Data first)));
                   rws = map (\<lambda>match. timeString e (Time match) #
                           map (\<lambda>column. sprintv e (lookup (Data match) (Title column)))
                             (drop 1 columns))
                         (Matches res);
                   t = tableNew e columns rws True (Some 20);
                   s = (DefaultStyles e)\<lparr>Selected := NewStyle\<rparr>
               in m1\<lparr>matchesTable := Some (SetStyles t s)\<rparr>)))"

definition UpdateMatchesHighlight :: "Model \<Rightarrow> int \<Rightarrow> panic + Model" where
  "UpdateMatchesHighlight m inc =
     (let nextIdx = matchesTableHighlightedIdx m + inc in
      if nextIdx < 0 then Inr (m\<lparr>matchesTableHighlightedIdx := 0\<rparr>)
      else (case matchesTable m of None \<Rightarrow> Inl NilDeref
            | Some t \<Rightarrow>
                if nextIdx \<ge> int (length (Rows t))
                then Inr (m\<lparr>matchesTableHighlightedIdx := int (length (Rows t)) - 1\<rparr>)
                else Inr (m\<lparr>matchesTableHighlightedIdx := nextIdx\<rparr>)))"

definition makeGraphs :: "Model \<Rightarrow> panic + GraphData list" where
  "makeGraphs m =
     (case queryMeta m of None \<Rightarrow> Inl NilDeref
      | Some qm \<Rightarrow>
          Inr (map (\<lambda>op.
                 \<lparr>title = name op,
                  data = replicate (length (groups qm)) (replicate (intervals qm) (Num 0)),
                  colors = map (\<lambda>g.
                      (let color = (case groupColors qm g of None \<Rightarrow> Default | Some c \<Rightarrow> c)
                       in if highlightedGroup m \<noteq> [] \<and> g \<noteq> highlightedGroup m
                          then SlateGray else color))
                    (groups qm)\<rparr>)
               (ops qm)))"

text \<open>
  The three nested loops of \<open>UpdateGraphs\<close>, innermost first: over the aggregations of an
  entry group (\<open>k\<close> is \<open>graphIdx\<close>, \<open>g\<close> is \<open>graphsDataIdx\<close>, \<open>i\<close> is \<open>intervalIdx\<close>), over
  the entry groups of an interval, and over the intervals. Each of the three indexings
  panics out of range. (The local matrix \<open>data\<close> that \<open>UpdateGraphs\<close> fills before calling
  \<open>makeGraphs\<close> is never read and is left out.)
\<close>

fun graphAggs ::
  "GraphData list \<Rightarrow> nat \<Rightarrow> nat \<Rightarrow> nat \<Rightarrow> Aggregation list \<Rightarrow> panic + GraphData list" where
  "graphAggs gs g i k [] = Inr gs"
| "graphAggs gs g i k (a # as) =
     (let intervalValue = (case Value a of VFloat f \<Rightarrow> f | _ \<Rightarrow> NaN) in
      if k \<ge> length gs then Inl IndexOutOfRange
      else (let graph = gs ! k in
        if g \<ge> length (data graph) then Inl IndexOutOfRange
        else (let row = data graph ! g in
          if i \<ge> length row then Inl IndexOutOfRange
          else graphAggs (gs[k := graph\<lparr>data := (data graph)[g := row[i := intervalValue]]\<rparr>])
                 g i (Suc k) as)))"

fun graphGroups ::
  "env \<Rightarrow> QueryMeta \<Rightarrow> GraphData list \<Rightarrow> nat \<Rightarrow> EntryGroup list \<Rightarrow> panic + GraphData list" where
  "graphGroups e qm gs i [] = Inr gs"
| "graphGroups e qm gs i (grp # grps) =
     (let groupKey = getGroupKey e (orderedGroupKeys qm) (Group grp);
          graphsDataIdx = SearchStrings (groups qm) groupKey
      in case graphAggs gs graphsDataIdx i 0 (Aggregations grp) of
           Inl p \<Rightarrow> Inl p
         | Inr gs1 \<Rightarrow> graphGroups e qm gs1 i grps)"

fun graphIntervals ::
  "env \<Rightarrow> QueryMeta \<Rightarrow> GraphData list \<Rightarrow> nat \<Rightarrow> Interval list \<Rightarrow> panic + GraphData list" where
  "graphIntervals e qm gs i [] = Inr gs"
| "graphIntervals e qm gs i (interval # rest) =
     (case graphGroups e qm gs i (Groups interval) of
        Inl p \<Rightarrow> Inl p
      | Inr gs1 \<Rightarrow> graphIntervals e qm gs1 (Suc i) rest)"

definition UpdateGraphs :: "env \<Rightarrow> Model \<Rightarrow> Result option \<Rightarrow> panic + Model" where
  "UpdateGraphs e m r =
     (case r of None \<Rightarrow> Inr (m\<lparr>graphs := None\<rparr>)
      | Some res \<Rightarrow>
          if length (Series (Buckets res)) = 0 then Inr (m\<lparr>graphs := None\<rparr>)
          else (case makeGraphs m of Inl p \<Rightarrow> Inl p
            | Inr gs \<Rightarrow>
               (case queryMeta m of None \<Rightarrow> Inl NilDeref
                | Some qm \<Rightarrow>
                   (case graphIntervals e qm gs 0 (Series (Buckets res)) of
                      Inl p \<Rightarrow> Inl p
                    | Inr gs1 \<Rightarrow> Inr (m\<lparr>graphs := Some gs1\<rparr>)))))"

definition UpdateTotals :: "env \<Rightarrow> Model \<Rightarrow> Result option \<Rightarrow> panic + Model" where
  "UpdateTotals e m r =
     (case r of None \<Rightarrow> Inr (m\<lparr>totalsTable := None\<rparr>)
      | Some res \<Rightarrow>
          if length (Totals (Buckets res)) = 0 then Inr (m\<lparr>totalsTable := None\<rparr>)
          else (case queryMeta m of None \<Rightarrow> Inl NilDeref
            | Some qm \<Rightarrow>
               (let columns = map (\<lambda>orderedKey. \<lparr>Title = orderedKey, Width = 20\<rparr>)
                                (orderedGroupKeys qm)
                              @ map (\<lambda>op. \<lparr>Title = name op, Width = 20\<rparr>) (ops qm);
                    rws = map (\<lambda>total.
                              map (\<lambda>orderedKey. sprintv e (lookup (Group total) orderedKey))
                                (orderedGroupKeys qm)
                              @ map (\<lambda>a. sprintv e (Value a)) (Aggregations total))
                            (Totals (Buckets res));
                    t = tableNew e columns rws False None;
                    s = (DefaultStyles e)\<lparr>Selected := NewStyle\<rparr>
                in Inr (m\<lparr>totalsTable := Some (Blur (SetStyles t s))\<rparr>))))"


section \<open>The controller\<close>

definition initSpinner :: "env \<Rightarrow> Spinner" where
  "initSpinner e = (spinnerNew e)\<lparr>spDot := True\<rparr>"

text \<open>
  \<open>initialModel\<close>, when the client could be built (otherwise the process exits). The fields
  that the composite literal does not name hold Go's zero values. The client is opaque and
  has no field here.
\<close>

definition initialModel :: "env \<Rightarrow> Model" where
  "initialModel e =
     \<lparr>ready = False,
      textarea = (textareaNew e)\<lparr>taWidth := 100, taPlaceholder := ''Enter an APL query...'',
                   taFocus := True\<rparr>,
      spinner = initSpinner e,
      state = TYPING,
      query = \<lparr>apl = [], result = None, err = None\<rparr>,
      msg = [],
      matchesTable = None,
      matchesTableHighlightedIdx = 0,
      graphs = None,
      queryMeta = None,
      otherMsg = [],
      totalsTable = None,
      highlightedGroup = [],
      refreshTimeout = 0,
      pulseStep = 9\<rparr>"

definition setMsg :: "Model \<Rightarrow> string \<Rightarrow> Model" where
  "setMsg m s = m\<lparr>msg := s\<rparr>"

definition setState :: "Model \<Rightarrow> State \<Rightarrow> Model" where
  "setState m s = m\<lparr>state := s\<rparr>"

definition RunQuery :: "Model \<Rightarrow> string \<Rightarrow> Model \<times> Cmd" where
  "RunQuery m q =
     (setState (setMsg m ''Running query...'') QUERYING, Batch [SpinnerTick, QueryCmd q])"

definition HighlightRow :: "string list \<Rightarrow> Cmd" where
  "HighlightRow row = MsgCmd (HighlightMsg row)"

text \<open>
  The \<open>update\<close> closure of \<open>HighlightRow\<close>, run on the model at the time the message is
  handled. \<open>highlightGroup\<close> is its loop \<open>group[key] = row[i]\<close>.
\<close>

fun highlightGroup :: "gomap \<Rightarrow> nat \<Rightarrow> string list \<Rightarrow> string list \<Rightarrow> panic + gomap" where
  "highlightGroup grp i [] row = Inr grp"
| "highlightGroup grp i (key # ks) row =
     (if i \<ge> length row then Inl IndexOutOfRange
      else highlightGroup (mapSet grp key (VString (row ! i))) (Suc i) ks row)"

definition highlightUpdate :: "env \<Rightarrow> Model \<Rightarrow> string list \<Rightarrow> panic + Model" where
  "highlightUpdate e m row =
     (case queryMeta m of None \<Rightarrow> Inl NilDeref
      | Some qm \<Rightarrow>
         (case highlightGroup [] 0 (orderedGroupKeys qm) row of
            Inl p \<Rightarrow> Inl p
          | Inr grp \<Rightarrow>
             (let groupKey = getGroupKey e (orderedGroupKeys qm) grp;
                  m1 = m\<lparr>highlightedGroup := groupKey\<rparr>
              in UpdateGraphs e m1 (result (query m1)))))"

definition SetRefreshing :: "Model \<Rightarrow> Model \<times> Cmd" where
  "SetRefreshing m = (setState (m\<lparr>refreshTimeout := 5\<rparr>) REFRESHING, TickCmd 1000 RefreshMsg)"

definition UpdateRefreshing :: "Model \<Rightarrow> Model \<times> Cmd" where
  "UpdateRefreshing m =
     (let m1 = m\<lparr>refreshTimeout := refreshTimeout m - 1\<rparr>
      in (m1, TickCmd 1000 (if refreshTimeout m1 \<le> 1 then ReRunMsg else RefreshMsg)))"

definition UpdatePulse :: "Model \<Rightarrow> Model \<times> Cmd" where
  "UpdatePulse m =
     ((if pulseStep m \<le> 0 then m\<lparr>pulseStep := 9\<rparr> else m\<lparr>pulseStep := pulseStep m - 1\<rparr>),
      TickCmd 150 PulseMsg)"

text \<open>
  \<open>Update\<close>: one equation for each case of the type switch, in the order of the source. The
  result is the panic, or the new model and the command.
\<close>

fun Update :: "env \<Rightarrow> Model \<Rightarrow> Msg \<Rightarrow> panic + (Model \<times> Cmd)" where
  "Update e m (KeyMsg k) =
     (if \<not> ready m then Inr (m\<lparr>ready := True\<rparr>, Batch [])
      else if k = ''ctrl+c'' then Inr (m, Quit)
      else (case state m of
          TYPING \<Rightarrow>
            (if k = ''enter'' then
               (let q = trimSpace e (taValue (textarea m)) in
                if q \<noteq> [] then (case RunQuery m q of (m1, c) \<Rightarrow> Inr (m1, Batch [c]))
                else Inr (m, Batch []))
             else (case textareaUpdate e (textarea m) (KeyMsg k) of
                     (ta, c) \<Rightarrow> Inr (m\<lparr>textarea := ta\<rparr>, Batch [c])))
        | REFRESHING \<Rightarrow>
            (if k = ''esc'' then
               (let m1 = (if \<not> taFocus (textarea m)
                          then m\<lparr>textarea := (textarea m)\<lparr>taFocus := True\<rparr>\<rparr> else m)
                in Inr (setState m1 TYPING, Batch [Blink]))
             else (case totalsTable m of
                 Some t \<Rightarrow>
                   (if \<not> Focused t then
                      (let t1 = Focus t
                       in Inr (m\<lparr>totalsTable := Some t1\<rparr>, Batch [HighlightRow (SelectedRow t1)]))
                    else (case tableUpdate e t (KeyMsg k) of
                       (t1, c) \<Rightarrow>
                         Inr (m\<lparr>totalsTable := Some t1\<rparr>,
                              Batch [c, HighlightRow (SelectedRow t1)])))
               | None \<Rightarrow>
                   (case matchesTable m of
                      Some t \<Rightarrow>
                        (case tableUpdate e t (KeyMsg k) of
                           (t1, c) \<Rightarrow>
                             (let m1 = m\<lparr>matchesTable := Some t1\<rparr> in
                              if k = ''down'' then
                                (case UpdateMatchesHighlight m1 1 of
                                   Inl p \<Rightarrow> Inl p | Inr m2 \<Rightarrow> Inr (m2, Batch [c]))
                              else if k = ''up'' then
                                (case UpdateMatchesHighlight m1 (-1) of
                                   Inl p \<Rightarrow> Inl p | Inr m2 \<Rightarrow> Inr (m2, Batch [c]))
                              else Inr (m1, Batch [c])))
                    | None \<Rightarrow> Inr (m, Batch []))))
        | QUERYING \<Rightarrow> Inr (m, Batch [])))"
| "Update e m (ResultMsg a r er) =
     (let m1 = m\<lparr>textarea := (textarea m)\<lparr>taFocus := False\<rparr>\<rparr>;
          m2 = m1\<lparr>highlightedGroup := []\<rparr>;
          m3 = UpdateQuery m2 a r er;
          m4 = UpdateQueryMeta e m3 r;
          m5 = UpdateMatchesTable e m4 r
      in case UpdateTotals e m5 r of Inl p \<Rightarrow> Inl p
         | Inr m6 \<Rightarrow>
            (case UpdateGraphs e m6 r of Inl p \<Rightarrow> Inl p
             | Inr m7 \<Rightarrow> (case SetRefreshing m7 of (m8, c) \<Rightarrow> Inr (m8, Batch [c]))))"
| "Update e m (HighlightMsg row) =
     (case highlightUpdate e m row of Inl p \<Rightarrow> Inl p | Inr m1 \<Rightarrow> Inr (m1, Batch []))"
| "Update e m SpinnerTickMsg =
     (case state m of
        QUERYING \<Rightarrow> (case spinnerUpdate e (spinner m) SpinnerTickMsg of
                       (sp, c) \<Rightarrow> Inr (m\<lparr>spinner := sp\<rparr>, Batch [c]))
      | _ \<Rightarrow> Inr (m, Batch []))"
| "Update e m RefreshMsg =
     (case state m of
        REFRESHING \<Rightarrow> (case UpdateRefreshing m of (m1, c) \<Rightarrow> Inr (m1, Batch [c]))
      | _ \<Rightarrow> Inr (m, Batch []))"
| "Update e m ReRunMsg =
     (case state m of
        REFRESHING \<Rightarrow> (case RunQuery m (apl (query m)) of (m1, c) \<Rightarrow> Inr (m1, Batch [c]))
      | _ \<Rightarrow> Inr (m, Batch []))"
| "Update e m PulseMsg =
     (if \<not> ready m then (case UpdatePulse m of (m1, c) \<Rightarrow> Inr (m1, Batch [c]))
      else Inr (m, Batch []))"
| "Update e m (OtherMsg n) =
     (if taFocus (textarea m) then
        (case textareaUpdate e (textarea m) (OtherMsg n) of
           (ta, c) \<Rightarrow> Inr (m\<lparr>textarea := ta\<rparr>, Batch [c]))
      else Inr (m, Batch []))"

section \<open>The view\<close>

text \<open>
  \<open>View\<close> and the sub-views have a value receiver: they work on a copy of the model, so no
  field of the caller's model changes. The two tables are held by pointer, so the copy shares
  them with the caller, and \<open>SetStyles\<close> on the copy's table changes the caller's table
  too. \<open>ViewMatches\<close>, \<open>ViewTotals\<close> and \<open>View\<close> therefore return, besides the string, the
  model as the caller finds it after the call.
\<close>

definition highlightStyles :: "env \<Rightarrow> Styles" where
  "highlightStyles e =
     (DefaultStyles e)\<lparr>Selected := (Selected (DefaultStyles e))
        \<lparr>stForeground := Some ''229'', stBackground := Some ''57'', stBold := Some False\<rparr>\<rparr>"

definition ViewMatches :: "env \<Rightarrow> Model \<Rightarrow> string \<times> Model" where
  "ViewMatches e m =
     (case matchesTable m of None \<Rightarrow> ([], m)
      | Some t \<Rightarrow>
         (let t1 = (if matchesTableHighlightedIdx m \<noteq> -1 then SetStyles t (highlightStyles e)
                    else t)
          in (Render e tableStyle (tableView e t1), m\<lparr>matchesTable := Some t1\<rparr>)))"

definition ViewTotals :: "env \<Rightarrow> Model \<Rightarrow> string \<times> Model" where
  "ViewTotals e m =
     (case totalsTable m of None \<Rightarrow> ([], m)
      | Some t \<Rightarrow>
         (let t1 = (if highlightedGroup m \<noteq> [] then SetStyles t (highlightStyles e) else t)
          in (Render e tableStyle (tableView e t1), m\<lparr>totalsTable := Some t1\<rparr>)))"

definition ViewGraphs :: "env \<Rightarrow> Model \<Rightarrow> string" where
  "ViewGraphs e m =
     (case graphs m of None \<Rightarrow> []
      | Some gs \<Rightarrow>
         (let graphWidth = 50;
              graphHeight = 10;
              focusedModelStyle = NewStyle\<lparr>stWidth := Some (graphWidth + 15),
                 stHeight := Some graphHeight, stAlignLeftTop := True, stNormalBorder := True,
                 stBorderForeground := Some ''69''\<rparr>;
              plots = map (\<lambda>graph. Render e focusedModelStyle
                        (PlotMany e (data graph) 0 (colors graph) graphHeight graphWidth
                           (title graph))) gs
          in Render e tableStyle (JoinHorizontal e plots)))"

definition ViewSpinner :: "env \<Rightarrow> Model \<Rightarrow> string" where
  "ViewSpinner e m =
     (if state m \<noteq> QUERYING then []
      else JoinHorizontal e [spinnerView e (spinner m), ''Running query...''])"

definition ViewRefreshTimeout :: "env \<Rightarrow> Model \<Rightarrow> string" where
  "ViewRefreshTimeout e m =
     (if state m \<noteq> REFRESHING then [] else ''Refresh in '' @ fmtInt e (refreshTimeout m))"

definition ViewMatchDetails :: "env \<Rightarrow> Model \<Rightarrow> panic + string" where
  "ViewMatchDetails e m =
     (if matchesTable m = None \<or> matchesTableHighlightedIdx m = -1 then Inr []
      else (case result (query m) of None \<Rightarrow> Inl NilDeref
        | Some res \<Rightarrow>
           (if matchesTableHighlightedIdx m < 0
               \<or> matchesTableHighlightedIdx m \<ge> int (length (Matches res))
            then Inl IndexOutOfRange
            else Inr (Render e tableStyle
                   (MarshalIndent e (Matches res ! nat (matchesTableHighlightedIdx m)))))))"

text \<open>The banner of the splash screen (block letters spelling the name of the service).\<close>

definition banner :: string where
  "banner = ''AXIOM''"

definition ViewSplashScreen :: "env \<Rightarrow> Model \<Rightarrow> panic + string" where
  "ViewSplashScreen e m =
     (if pulseStep m < 0 \<or> pulseStep m \<ge> int (length PULSE_STEP_COLORS) then Inl IndexOutOfRange
      else Inr (Render e (NewStyle\<lparr>stForeground := Some (PULSE_STEP_COLORS ! nat (pulseStep m))\<rparr>)
             banner))"

definition ViewError :: "Model \<Rightarrow> string" where
  "ViewError m = (case err (query m) of None \<Rightarrow> [] | Some er \<Rightarrow> ''Error: '' @ er)"

definition View :: "env \<Rightarrow> Model \<Rightarrow> panic + (string \<times> Model)" where
  "View e m =
     (if \<not> ready m then
        (case ViewSplashScreen e m of Inl p \<Rightarrow> Inl p | Inr s \<Rightarrow> Inr (s, m))
      else
        (let parts0 = [Render e tableStyle
                         (JoinHorizontal e [ViewSpinner e m, ViewRefreshTimeout e m]),
                       Render e tableStyle (textareaView e (textarea m))];
             parts1 = appendIfNotEmpty parts0 (ViewError m);
             parts2 = appendIfNotEmpty parts1 (ViewGraphs e m)
         in case ViewTotals e m of (st, m1) \<Rightarrow>
            (let parts3 = appendIfNotEmpty parts2 st in
             case ViewMatches e m1 of (sm, m2) \<Rightarrow>
               (let parts4 = appendIfNotEmpty parts3 sm in
                case ViewMatchDetails e m2 of Inl p \<Rightarrow> Inl p
                | Inr sd \<Rightarrow> Inr (JoinVertical e (appendIfNotEmpty parts4 sd), m2)))))"


section \<open>The update loop\<close>

text \<open>
  The toolkit starts from \<open>initialModel\<close>, and then repeatedly renders the model with
  \<open>View\<close> and hands the next event to \<open>Update\<close>, replacing the model by the one returned.
  A panic ends the program. \<open>run\<close> feeds a list of events; \<open>reachable\<close> are the models the
  loop can hold.
\<close>

fun run :: "env \<Rightarrow> Model \<Rightarrow> Msg list \<Rightarrow> panic + Model" where
  "run e m [] = Inr m"
| "run e m (ev # evs) =
     (case Update e m ev of Inl p \<Rightarrow> Inl p | Inr (m1, c) \<Rightarrow> run e m1 evs)"

inductive reachable :: "env \<Rightarrow> Model \<Rightarrow> bool" for e :: env where
  reachable_init: "reachable e (initialModel e)"
| reachable_update: "reachable e m \<Longrightarrow> Update e m ev = Inr (m1, c) \<Longrightarrow> reachable e m1"
| reachable_view: "reachable e m \<Longrightarrow> View e m = Inr (s, m1) \<Longrightarrow> reachable e m1"

section \<open>Sample inputs\<close>

text \<open>
  A sample environment: maps are enumerated in the order of their association list, and the
  library functions are simple stand-ins. \<open>envRev\<close> differs from it only in enumerating
  maps in the opposite order.
\<close>

definition env0 :: env where
  "env0 = \<lparr>rangeOrder = (\<lambda>ks. ks), fmtInt = (\<lambda>i. ''int''), fmtFloat = (\<lambda>f. ''float''),
     timeString = (\<lambda>t. ''time''), trimSpace = (\<lambda>s. s),
     DefaultStyles = \<lparr>Header = NewStyle, Cell = NewStyle,
                       Selected = NewStyle\<lparr>stBold := Some True\<rparr>\<rparr>,
     tableUpdate = (\<lambda>t ev. (t, NilCmd)), tableView = (\<lambda>t. ''table''),
     textareaNew = \<lparr>taValue = [], taFocus = False, taWidth = 0, taPlaceholder = []\<rparr>,
     textareaUpdate = (\<lambda>ta ev. (ta, NilCmd)), textareaView = (\<lambda>ta. taValue ta),
     spinnerNew = \<lparr>spDot = False, spFrame = 0\<rparr>,
     spinnerUpdate = (\<lambda>sp ev. (sp\<lparr>spFrame := Suc (spFrame sp)\<rparr>, SpinnerTick)),
     spinnerView = (\<lambda>sp. ''.''),
     Render = (\<lambda>st s. s), JoinHorizontal = concat, JoinVertical = concat,
     PlotMany = (\<lambda>d p cs h w cap. cap), MarshalIndent = (\<lambda>en. ''{}'')\<rparr>"


definition agg :: "string \<Rightarrow> real \<Rightarrow> Aggregation" where
  "agg al v = \<lparr>Alias = al, Value = VFloat (Num v)\<rparr>"

definition svc :: "string \<Rightarrow> gomap" where
  "svc s = [(''svc'', VString s)]"

text \<open>
  Two intervals, the groups \<open>a\<close> and \<open>b\<close>, one operation \<open>avg\<close>: both groups in interval 0
  (10 and 20), only \<open>a\<close> in interval 1 (15).
\<close>

definition resMissing :: Result where
  "resMissing = \<lparr>Matches = [], Buckets = \<lparr>
      Series = [\<lparr>Groups = [\<lparr>Group = svc ''a'', Aggregations = [agg ''avg'' 10]\<rparr>,
                           \<lparr>Group = svc ''b'', Aggregations = [agg ''avg'' 20]\<rparr>]\<rparr>,
                \<lparr>Groups = [\<lparr>Group = svc ''a'', Aggregations = [agg ''avg'' 15]\<rparr>]\<rparr>],
      Totals = [\<lparr>Group = svc ''a'', Aggregations = [agg ''avg'' 12]\<rparr>,
                \<lparr>Group = svc ''b'', Aggregations = [agg ''avg'' 20]\<rparr>]\<rparr>\<rparr>"

text \<open>No interval, one total.\<close>

definition resTotalsOnly :: Result where
  "resTotalsOnly = \<lparr>Matches = [], Buckets = \<lparr>Series = [],
      Totals = [\<lparr>Group = [], Aggregations = [agg ''count'' 3]\<rparr>]\<rparr>\<rparr>"

text \<open>One interval whose entry group has two aggregations; the totals name one alias.\<close>

definition resExtraAgg :: Result where
  "resExtraAgg = \<lparr>Matches = [], Buckets = \<lparr>
      Series = [\<lparr>Groups = [\<lparr>Group = [], Aggregations = [agg ''count'' 1, agg ''avg'' 2]\<rparr>]\<rparr>],
      Totals = [\<lparr>Group = [], Aggregations = [agg ''count'' 1]\<rparr>]\<rparr>\<rparr>"

text \<open>Two matches with the fields \<open>host\<close> and \<open>code\<close>; no interval and no total.\<close>

definition resMatches :: Result where
  "resMatches = \<lparr>Matches = [\<lparr>Time = 1, Data = [(''host'', VString ''h1''), (''code'', VInt 200)]\<rparr>,
                              \<lparr>Time = 2, Data = [(''host'', VString ''h2''), (''code'', VInt 500)]\<rparr>],
      Buckets = \<lparr>Series = [], Totals = []\<rparr>\<rparr>"

text \<open>One interval with the group \<open>a\<close>; the totals hold the group \<open>b\<close>.\<close>

definition resForeignTotal :: Result where
  "resForeignTotal = \<lparr>Matches = [], Buckets = \<lparr>
      Series = [\<lparr>Groups = [\<lparr>Group = svc ''a'', Aggregations = [agg ''count'' 1]\<rparr>]\<rparr>],
      Totals = [\<lparr>Group = svc ''b'', Aggregations = [agg ''count'' 1]\<rparr>]\<rparr>\<rparr>"


text \<open>
  The model after a key (which leaves the splash screen) and a response: \<open>mSuccess\<close> after
  \<open>resMissing\<close>, \<open>mSelected\<close> after \<open>resMatches\<close> and the key \<open>down\<close>.
\<close>

definition mReady :: Model where
  "mReady = (initialModel env0)\<lparr>ready := True\<rparr>"

definition mSuccess :: Model where
  "mSuccess = projr (run env0 (initialModel env0)
      [KeyMsg ''x'', ResultMsg ''q'' (Some resMissing) None])"

definition mSelected :: Model where
  "mSelected = projr (run env0 (initialModel env0)
      [KeyMsg ''x'', ResultMsg ''q'' (Some resMatches) None, KeyMsg ''down''])"

section \<open>The quit key\<close>

text \<open>
  C7 (as amended): once the first key has arrived (\<open>ready\<close> holds), the key \<open>ctrl+c\<close> in any
  state returns the quit command and the model unchanged. Before that (\<open>ready\<close> is false)
  the key is consumed like any other: \<open>ready\<close> becomes true, nothing else changes, and no
  quit command is returned.
\<close>

theorem C7_quit_when_ready:
  "Update e m (KeyMsg ''ctrl+c'') =
     (if ready m then Inr (m, Quit) else Inr (m\<lparr>ready := True\<rparr>, Batch []))"
  by simp

theorem C7_quit_when_ready_witness:
  "ready mReady \<and> Update env0 mReady (KeyMsg ''ctrl+c'') = Inr (mReady, Quit)"
  using C7_quit_when_ready [of env0 mReady] by (simp add: mReady_def)

text \<open>
  C7 as stated fails before the first key: on the initial model \<open>ctrl+c\<close> changes the model
  and returns the empty batch, not the quit command.
\<close>

theorem C7_counterexample:
  "\<not> ready (initialModel env0) \<and>
   Update env0 (initialModel env0) (KeyMsg ''ctrl+c'')
     = Inr ((initialModel env0)\<lparr>ready := True\<rparr>, Batch []) \<and>
   (initialModel env0)\<lparr>ready := True\<rparr> \<noteq> initialModel env0 \<and> Batch [] \<noteq> Quit"
  by (simp add: initialModel_def)

section \<open>A failed query\<close>

text \<open>
  C1 (as amended): a response with no result and an error is accepted from any model; the
  error is stored and \<open>ViewError\<close> renders it as \<open>Error: \<close> followed by the error, the state
  becomes \<open>REFRESHING\<close> with the countdown at 5 and the one-second tick scheduled, and the
  meta, the graphs and both tables are cleared, whatever the previous response had left.
\<close>

theorem C1_error_event:
  "\<exists>m1. Update e m (ResultMsg a None (Some er)) = Inr (m1, Batch [TickCmd 1000 RefreshMsg])
     \<and> err (query m1) = Some er \<and> ViewError m1 = ''Error: '' @ er
     \<and> state m1 = REFRESHING \<and> refreshTimeout m1 = 5
     \<and> queryMeta m1 = None \<and> graphs m1 = None \<and> totalsTable m1 = None
     \<and> matchesTable m1 = None"
  by (simp add: UpdateQuery_def UpdateQueryMeta_def UpdateMatchesTable_def UpdateTotals_def
      UpdateGraphs_def SetRefreshing_def setState_def ViewError_def)

text \<open>
  C1 as stated fails: after a successful response the model holds graphs and a totals table,
  and the failed response that follows removes both.
\<close>

theorem C1_counterexample:
  "\<not> isl (run env0 (initialModel env0) [KeyMsg ''x'', ResultMsg ''q'' (Some resMissing) None])
   \<and> graphs mSuccess \<noteq> None \<and> totalsTable mSuccess \<noteq> None
   \<and> \<not> isl (Update env0 mSuccess (ResultMsg ''q'' None (Some ''timeout'')))
   \<and> graphs (fst (projr (Update env0 mSuccess (ResultMsg ''q'' None (Some ''timeout''))))) = None
   \<and> totalsTable (fst (projr (Update env0 mSuccess (ResultMsg ''q'' None (Some ''timeout'')))))
       = None"
  by code_simp


section \<open>Responses that make the controller panic\<close>

text \<open>
  C3: the claim is that every response is processed without a panic. The code panics on two
  kinds of response. With no interval and a total, \<open>UpdateQueryMeta\<close> leaves the meta nil and
  \<open>UpdateTotals\<close>, whose guard looks at the totals only, dereferences it. With an entry group
  that has more aggregations than the totals have aliases, \<open>UpdateGraphs\<close> indexes the graphs
  (one for each alias) out of range. Both hold from any model and in any environment.
\<close>

theorem C3_result_event_panics:
  "Update e m (ResultMsg a (Some resTotalsOnly) er) = Inl NilDeref \<and>
   Update e m (ResultMsg a (Some resExtraAgg) er) = Inl IndexOutOfRange"
  apply (rule conjI)
   apply (simp add: resTotalsOnly_def UpdateQuery_def UpdateQueryMeta_def UpdateMatchesTable_def
      UpdateTotals_def)
  apply (simp add: resExtraAgg_def UpdateQuery_def UpdateQueryMeta_def UpdateMatchesTable_def
      UpdateTotals_def UpdateGraphs_def makeGraphs_def metaSeries_def metaGroup_def metaOps_def
      opsAgg_def agg_def len_def keys_def getGroupKey_def SearchStrings_def Search_def
      tableNew_def SetStyles_def Blur_def Let_def)
  done

section \<open>Responses without intervals\<close>

text \<open>
  C4 (as amended): a response whose result is absent, or has no interval and no total, is
  processed, and leaves the meta, the graphs and the totals table null. The matches table is
  null exactly when the result is absent or has no match: it is derived from the matches,
  not from the intervals.
\<close>

theorem C4_empty_result:
  assumes "case r of None \<Rightarrow> True
           | Some res \<Rightarrow> Series (Buckets res) = [] \<and> Totals (Buckets res) = []"
  shows "\<exists>m1 c. Update e m (ResultMsg a r er) = Inr (m1, c)
           \<and> queryMeta m1 = None \<and> graphs m1 = None \<and> totalsTable m1 = None
           \<and> (matchesTable m1 = None)
               = (case r of None \<Rightarrow> True | Some res \<Rightarrow> Matches res = [])"
  using assms
  by (auto simp add: UpdateQuery_def UpdateQueryMeta_def UpdateMatchesTable_def
      UpdateTotals_def UpdateGraphs_def SetRefreshing_def setState_def Let_def
      split: option.splits list.splits)

theorem C4_empty_result_witness:
  "Series (Buckets resMatches) = [] \<and> Totals (Buckets resMatches) = [] \<and>
   (\<exists>m1 c. Update env0 mReady (ResultMsg ''q'' (Some resMatches) None) = Inr (m1, c)
           \<and> queryMeta m1 = None \<and> graphs m1 = None \<and> totalsTable m1 = None
           \<and> matchesTable m1 \<noteq> None)"
  using C4_empty_result [of "Some resMatches" env0 mReady "''q''" None]
  by (simp add: resMatches_def)

text \<open>
  C4 as stated fails: a result with no interval and two matches leaves the meta null and
  the matches table non-null.
\<close>

theorem C4_counterexample:
  "Series (Buckets resMatches) = []
   \<and> \<not> isl (Update env0 mReady (ResultMsg ''q'' (Some resMatches) None))
   \<and> queryMeta (fst (projr (Update env0 mReady (ResultMsg ''q'' (Some resMatches) None))))
       = None
   \<and> matchesTable (fst (projr (Update env0 mReady (ResultMsg ''q'' (Some resMatches) None))))
       \<noteq> None"
  by code_simp


section \<open>What rendering changes\<close>

text \<open>
  C5 (as amended): \<open>View\<close> changes no field of the model, and nothing reachable from it but
  the styles of the two table widgets. When the splash screen is shown nothing changes at
  all. Otherwise the totals table gets the highlight styles when a group is highlighted,
  the matches table gets them when a match is selected, and the tables are otherwise as
  before.
\<close>

theorem C5_view_frame:
  assumes "View e m = Inr (s, m1)"
  shows "m1 = (if ready m then
               m\<lparr>totalsTable :=
                   (case totalsTable m of None \<Rightarrow> None
                    | Some t \<Rightarrow> Some (if highlightedGroup m \<noteq> []
                                      then t\<lparr>styles := highlightStyles e\<rparr> else t)),
                 matchesTable :=
                   (case matchesTable m of None \<Rightarrow> None
                    | Some t \<Rightarrow> Some (if matchesTableHighlightedIdx m \<noteq> -1
                                      then t\<lparr>styles := highlightStyles e\<rparr> else t))\<rparr>
               else m)"
  using assms
  by (auto simp add: View_def ViewTotals_def ViewMatches_def SetStyles_def Let_def
      split: if_splits sum.splits option.splits prod.splits)

theorem C5_view_frame_witness:
  "\<not> isl (View env0 mSelected)
   \<and> state (snd (projr (View env0 mSelected))) = state mSelected
   \<and> query (snd (projr (View env0 mSelected))) = query mSelected
   \<and> graphs (snd (projr (View env0 mSelected))) = graphs mSelected"
proof -
  have ok: "\<not> isl (View env0 mSelected)"
    by code_simp
  then have "View env0 mSelected
      = Inr (fst (projr (View env0 mSelected)), snd (projr (View env0 mSelected)))"
    by (cases "View env0 mSelected") simp_all
  from C5_view_frame [OF this] ok show ?thesis
    by (simp split: if_splits)
qed

text \<open>
  C5 as stated fails: rendering a model in which a match is selected replaces the styles of
  the matches table, which the model shares with the rendered copy.
\<close>

theorem C5_counterexample:
  "\<not> isl (View env0 mSelected)
   \<and> matchesTable (snd (projr (View env0 mSelected))) \<noteq> matchesTable mSelected"
  by code_simp


section \<open>Determinism of the projection\<close>

text \<open>Only the enumeration order of maps is taken from \<open>rangeOrder\<close>.\<close>

lemma sprintv_rangeOrder [simp]: "sprintv (e\<lparr>rangeOrder := ord\<rparr>) = sprintv e"
  by (rule ext) (simp add: sprintv_def split: scalar.splits)

lemma getGroupKey_rangeOrder [simp]: "getGroupKey (e\<lparr>rangeOrder := ord\<rparr>) = getGroupKey e"
  by (intro ext) (simp add: getGroupKey_def)

lemma graphGroups_rangeOrder [simp]:
  "graphGroups (e\<lparr>rangeOrder := ord\<rparr>) qm gs i grps = graphGroups e qm gs i grps"
  by (induction grps arbitrary: gs) (simp_all split: sum.splits)

lemma graphIntervals_rangeOrder [simp]:
  "graphIntervals (e\<lparr>rangeOrder := ord\<rparr>) qm gs i ivs = graphIntervals e qm gs i ivs"
  by (induction ivs arbitrary: gs i) (simp_all split: sum.splits)





lemma UpdateTotals_rangeOrder [simp]:
  "UpdateTotals (e\<lparr>rangeOrder := ord\<rparr>) m r = UpdateTotals e m r"
  by (simp add: UpdateTotals_def tableNew_def split: option.splits)

lemma UpdateGraphs_rangeOrder [simp]:
  "UpdateGraphs (e\<lparr>rangeOrder := ord\<rparr>) m r = UpdateGraphs e m r"
  by (simp add: UpdateGraphs_def split: option.splits sum.splits)




lemma UpdateMatchesTable_shape:
  "\<exists>t. UpdateMatchesTable e m r = m\<lparr>matchesTableHighlightedIdx := -1, matchesTable := t\<rparr>"
  by (auto simp add: UpdateMatchesTable_def Let_def split: option.splits list.splits)







section \<open>The shape of the graphs\<close>

text \<open>
  Filling the graphs changes cells only: the titles, the colours and the dimensions of the
  matrices stay as \<open>makeGraphs\<close> set them.
\<close>

lemma map_update_nth: "g < length xs \<Longrightarrow> (map f xs)[g := f (xs ! g)] = map f xs"
  by (simp add: list_update_same_conv)

lemma graphAggs_frame:
  "graphAggs gs g i k as = Inr gs1 \<Longrightarrow>
     map (\<lambda>gr. (title gr, colors gr, map length (data gr))) gs1
       = map (\<lambda>gr. (title gr, colors gr, map length (data gr))) gs"
proof (induction as arbitrary: gs k)
  case Nil
  then show ?case by simp
next
  case (Cons a as)
  from Cons.prems have k: "k < length gs" and g: "g < length (data (gs ! k))"
    and i: "i < length (data (gs ! k) ! g)"
    by (auto simp add: Let_def split: if_splits)
  let ?v = "case Value a of VFloat f \<Rightarrow> f | _ \<Rightarrow> NaN"
  let ?gs = "gs[k := (gs ! k)\<lparr>data := (data (gs ! k))[g := (data (gs ! k) ! g)[i := ?v]]\<rparr>]"
  from Cons.prems k g i have "graphAggs ?gs g i (Suc k) as = Inr gs1"
    by (simp add: Let_def)
  from Cons.IH [OF this]
  have "map (\<lambda>gr. (title gr, colors gr, map length (data gr))) gs1
      = map (\<lambda>gr. (title gr, colors gr, map length (data gr))) ?gs" .
  also have "\<dots> = map (\<lambda>gr. (title gr, colors gr, map length (data gr))) gs"
    using k g i by (simp add: map_update map_update_nth list_update_same_conv)
  finally show ?case .
qed

lemma graphGroups_frame:
  "graphGroups e qm gs i grps = Inr gs1 \<Longrightarrow>
     map (\<lambda>gr. (title gr, colors gr, map length (data gr))) gs1
       = map (\<lambda>gr. (title gr, colors gr, map length (data gr))) gs"
proof (induction grps arbitrary: gs)
  case Nil
  then show ?case by simp
next
  case (Cons grp grps)
  then show ?case
    by (auto simp add: Let_def split: sum.splits dest: graphAggs_frame)
qed

lemma graphIntervals_frame:
  "graphIntervals e qm gs i ivs = Inr gs1 \<Longrightarrow>
     map (\<lambda>gr. (title gr, colors gr, map length (data gr))) gs1
       = map (\<lambda>gr. (title gr, colors gr, map length (data gr))) gs"
proof (induction ivs arbitrary: gs i)
  case Nil
  then show ?case by simp
next
  case (Cons iv ivs)
  then show ?case
    by (auto split: sum.splits dest: graphGroups_frame)
qed




lemma makeGraphs_shape:
  assumes "makeGraphs m = Inr gs" and "queryMeta m = Some qm"
  shows "map (\<lambda>gr. (title gr, colors gr, map length (data gr))) gs
       = map (\<lambda>op. (name op,
                map (\<lambda>g. if highlightedGroup m \<noteq> [] \<and> g \<noteq> highlightedGroup m then SlateGray
                          else (case groupColors qm g of None \<Rightarrow> Default | Some c \<Rightarrow> c))
                  (groups qm),
                replicate (length (groups qm)) (intervals qm)))
           (ops qm)"
proof -
  from assms have "gs = map (\<lambda>op.
                 \<lparr>title = name op,
                  data = replicate (length (groups qm)) (replicate (intervals qm) (Num 0)),
                  colors = map (\<lambda>g.
                      (let color = (case groupColors qm g of None \<Rightarrow> Default | Some c \<Rightarrow> c)
                       in if highlightedGroup m \<noteq> [] \<and> g \<noteq> highlightedGroup m
                          then SlateGray else color))
                    (groups qm)\<rparr>)
               (ops qm)"
    by (simp add: makeGraphs_def)
  then show ?thesis
    by (simp add: Let_def comp_def)
qed


lemma UpdateGraphs_Some:
  assumes "UpdateGraphs e m (Some res) = Inr m1" and "Series (Buckets res) \<noteq> []"
    and "queryMeta m = Some qm"
  shows "\<exists>gs0 gs. makeGraphs m = Inr gs0
           \<and> graphIntervals e qm gs0 0 (Series (Buckets res)) = Inr gs
           \<and> m1 = m\<lparr>graphs := Some gs\<rparr>"
proof (cases "makeGraphs m")
  case (Inl p)
  with assms show ?thesis by (simp add: UpdateGraphs_def)
next
  case (Inr gs0)
  show ?thesis
  proof (cases "graphIntervals e qm gs0 0 (Series (Buckets res))")
    case (Inl p)
    with assms Inr show ?thesis by (simp add: UpdateGraphs_def)
  next
    case gi: (Inr gs)
    with assms Inr have "m1 = m\<lparr>graphs := Some gs\<rparr>"
      by (simp add: UpdateGraphs_def)
    with Inr gi show ?thesis by simp
  qed
qed

lemma UpdateGraphs_shape:
  assumes "UpdateGraphs e m (Some res) = Inr m1" and "Series (Buckets res) \<noteq> []"
    and "queryMeta m = Some qm"
  shows "\<exists>gs. m1 = m\<lparr>graphs := Some gs\<rparr> \<and>
           map (\<lambda>gr. (title gr, colors gr, map length (data gr))) gs
             = map (\<lambda>op. (name op,
                map (\<lambda>g. if highlightedGroup m \<noteq> [] \<and> g \<noteq> highlightedGroup m then SlateGray
                          else (case groupColors qm g of None \<Rightarrow> Default | Some c \<Rightarrow> c))
                  (groups qm),
                replicate (length (groups qm)) (intervals qm)))
              (ops qm)"
proof -
  from UpdateGraphs_Some [OF assms] obtain gs0 gs where mk: "makeGraphs m = Inr gs0"
    and gi: "graphIntervals e qm gs0 0 (Series (Buckets res)) = Inr gs"
    and m1: "m1 = m\<lparr>graphs := Some gs\<rparr>"
    by blast
  from graphIntervals_frame [OF gi] makeGraphs_shape [OF mk assms(3)]
  have "map (\<lambda>gr. (title gr, colors gr, map length (data gr))) gs
             = map (\<lambda>op. (name op,
                map (\<lambda>g. if highlightedGroup m \<noteq> [] \<and> g \<noteq> highlightedGroup m then SlateGray
                          else (case groupColors qm g of None \<Rightarrow> Default | Some c \<Rightarrow> c))
                  (groups qm),
                replicate (length (groups qm)) (intervals qm)))
              (ops qm)"
    by (rule trans)
  with m1 show ?thesis by blast
qed


lemma shape_dims:
  assumes "map (\<lambda>gr. (title gr, colors gr, map length (data gr))) gs
             = map (\<lambda>op. (name op, cs, replicate n k)) os"
  shows "length gs = length os \<and>
         (\<forall>gr\<in>set gs. length (data gr) = n \<and> (\<forall>row\<in>set (data gr). length row = k))"
proof -
  from assms have len: "length gs = length os"
    by (rule map_eq_imp_length_eq)
  have "length (data gr) = n \<and> (\<forall>row\<in>set (data gr). length row = k)" if "gr \<in> set gs" for gr
  proof -
    from that obtain j where j: "j < length gs" and gr: "gr = gs ! j"
      by (auto simp add: in_set_conv_nth)
    from assms have "map (\<lambda>gr. (title gr, colors gr, map length (data gr))) gs ! j
        = map (\<lambda>op. (name op, cs, replicate n k)) os ! j"
      by simp
    with j len gr have eq: "map length (data gr) = replicate n k"
      by simp
    from arg_cong [OF eq, of length] have "length (data gr) = n"
      by simp
    moreover have "length row = k" if "row \<in> set (data gr)" for row
    proof -
      from that have "length row \<in> set (map length (data gr))" by simp
      then show ?thesis unfolding eq by simp
    qed
    ultimately show ?thesis by blast
  qed
  with len show ?thesis by blast
qed

lemma UpdateQueryMeta_Some:
  assumes "queryMeta (UpdateQueryMeta e m r) = Some qm"
  shows "\<exists>res. r = Some res \<and> Series (Buckets res) \<noteq> []"
  using assms by (cases r) (auto simp add: UpdateQueryMeta_def split: if_splits)

lemma UpdateMatchesTable_queryMeta [simp]:
  "queryMeta (UpdateMatchesTable e m r) = queryMeta m"
  using UpdateMatchesTable_shape [of e m r] by auto

lemma UpdateTotals_frame:
  "UpdateTotals e m r = Inr m1 \<Longrightarrow> \<exists>t. m1 = m\<lparr>totalsTable := t\<rparr>"
  by (cases r) (auto simp add: UpdateTotals_def Let_def split: if_splits option.splits)


lemma UpdateGraphs_queryMeta:
  "UpdateGraphs e m r = Inr m1 \<Longrightarrow> queryMeta m1 = queryMeta m"
  by (cases r) (auto simp add: UpdateGraphs_def split: if_splits sum.splits option.splits)

lemma result_event_steps:
  assumes "Update e m (ResultMsg a r er) = Inr (m1, c)"
  shows "\<exists>m6 m7. UpdateTotals e (UpdateMatchesTable e (UpdateQueryMeta e (UpdateQuery
              (m\<lparr>textarea := (textarea m)\<lparr>taFocus := False\<rparr>, highlightedGroup := []\<rparr>) a r er) r) r) r
              = Inr m6
          \<and> UpdateGraphs e m6 r = Inr m7
          \<and> m1 = m7\<lparr>refreshTimeout := 5, state := REFRESHING\<rparr>
          \<and> c = Batch [TickCmd 1000 RefreshMsg]"
  using assms
  by (auto simp add: Let_def SetRefreshing_def setState_def split: sum.splits)

text \<open>
  C8: when a response has been processed and left a meta, the model holds one graph for
  each operation of the meta, and the data matrix of every graph has one row for each group
  of the meta, each row as long as the number of intervals.
\<close>

theorem C8_graph_shape:
  assumes "Update e m (ResultMsg a r er) = Inr (m1, c)" and "queryMeta m1 = Some qm"
  shows "\<exists>gs. graphs m1 = Some gs \<and> length gs = length (ops qm)
           \<and> (\<forall>gr\<in>set gs. length (data gr) = length (groups qm)
                 \<and> (\<forall>row\<in>set (data gr). length row = intervals qm))"
proof -
  let ?m3 = "UpdateQuery (m\<lparr>textarea := (textarea m)\<lparr>taFocus := False\<rparr>,
                highlightedGroup := []\<rparr>) a r er"
  let ?m4 = "UpdateQueryMeta e ?m3 r"
  let ?m5 = "UpdateMatchesTable e ?m4 r"
  from result_event_steps [OF assms(1)] obtain m6 m7 where
    T: "UpdateTotals e ?m5 r = Inr m6" and G: "UpdateGraphs e m6 r = Inr m7"
    and m1: "m1 = m7\<lparr>refreshTimeout := 5, state := REFRESHING\<rparr>"
    by blast
  from UpdateTotals_frame [OF T] obtain t where m6: "m6 = ?m5\<lparr>totalsTable := t\<rparr>"
    by blast
  from m1 assms(2) UpdateGraphs_queryMeta [OF G] have q6: "queryMeta m6 = Some qm"
    by simp
  with m6 have q4: "queryMeta ?m4 = Some qm"
    by simp
  from UpdateQueryMeta_Some [OF q4] obtain res where r: "r = Some res"
    and ser: "Series (Buckets res) \<noteq> []"
    by blast
  from UpdateGraphs_shape [OF G [unfolded r] ser q6] obtain gs where
    m7: "m7 = m6\<lparr>graphs := Some gs\<rparr>"
    and sh: "map (\<lambda>gr. (title gr, colors gr, map length (data gr))) gs
             = map (\<lambda>op. (name op,
                map (\<lambda>g. if highlightedGroup m6 \<noteq> [] \<and> g \<noteq> highlightedGroup m6 then SlateGray
                          else (case groupColors qm g of None \<Rightarrow> Default | Some c \<Rightarrow> c))
                  (groups qm),
                replicate (length (groups qm)) (intervals qm)))
              (ops qm)"
    by blast
  from m1 m7 have "graphs m1 = Some gs"
    by simp
  with shape_dims [OF sh] show ?thesis
    by blast
qed

theorem C8_graph_shape_witness:
  "\<not> isl (Update env0 mReady (ResultMsg ''q'' (Some resMissing) None))
   \<and> (\<exists>qm gs. queryMeta (fst (projr (Update env0 mReady (ResultMsg ''q'' (Some resMissing) None)))) = Some qm
       \<and> graphs (fst (projr (Update env0 mReady (ResultMsg ''q'' (Some resMissing) None)))) = Some gs
       \<and> length gs = length (ops qm) \<and> length (ops qm) = 1 \<and> length (groups qm) = 2 \<and> intervals qm = 2
       \<and> (\<forall>gr\<in>set gs. length (data gr) = length (groups qm)
                 \<and> (\<forall>row\<in>set (data gr). length row = intervals qm)))"
proof -
  let ?u = "Update env0 mReady (ResultMsg ''q'' (Some resMissing) None)"
  have ok: "\<not> isl ?u"
    by code_simp
  then have u: "?u = Inr (fst (projr ?u), snd (projr ?u))"
    by (cases ?u) simp_all
  have "queryMeta (fst (projr ?u)) \<noteq> None"
    by code_simp
  then obtain qm where qm: "queryMeta (fst (projr ?u)) = Some qm"
    by blast
  have "map_option (\<lambda>q. (length (ops q), length (groups q), intervals q)) (queryMeta (fst (projr ?u)))
      = Some (1, 2, 2)"
    by code_simp
  with qm have dims: "length (ops qm) = 1 \<and> length (groups qm) = 2 \<and> intervals qm = 2"
    by simp
  from C8_graph_shape [OF u qm] ok qm dims show ?thesis
    by blast
qed


section \<open>The cells of the graphs\<close>

text \<open>
  What each of the three loops of \<open>UpdateGraphs\<close> leaves in the cell \<open>I\<close> of the row \<open>G\<close>
  of the graph \<open>K\<close>.
\<close>

lemma graphAggs_cell:
  "graphAggs gs g i k as = Inr gs1 \<Longrightarrow>
   data (gs1 ! K) ! G ! I =
     (if g = G \<and> i = I \<and> k \<le> K \<and> K < k + length as
      then (case Value (as ! (K - k)) of VFloat f \<Rightarrow> f | _ \<Rightarrow> NaN)
      else data (gs ! K) ! G ! I)"
proof (induction as arbitrary: gs k)
  case Nil
  then show ?case by auto
next
  case (Cons a as)
  from Cons.prems have k: "k < length gs" and g: "g < length (data (gs ! k))"
    and i: "i < length (data (gs ! k) ! g)"
    by (auto simp add: Let_def split: if_splits)
  let ?v = "case Value a of VFloat f \<Rightarrow> f | _ \<Rightarrow> NaN"
  let ?gs = "gs[k := (gs ! k)\<lparr>data := (data (gs ! k))[g := (data (gs ! k) ! g)[i := ?v]]\<rparr>]"
  from Cons.prems k g i have step: "graphAggs ?gs g i (Suc k) as = Inr gs1"
    by (simp add: Let_def)
  have upd: "data (?gs ! K) ! G ! I
      = (if k = K \<and> g = G \<and> i = I then ?v else data (gs ! K) ! G ! I)"
    using k g i by (auto simp add: nth_list_update)
  show ?case
  proof (cases "g = G \<and> i = I \<and> k \<le> K \<and> K < k + length (a # as)")
    case False
    with Cons.IH [OF step] upd show ?thesis by auto
  next
    case True
    show ?thesis
    proof (cases "K = k")
      case True
      with \<open>g = G \<and> i = I \<and> k \<le> K \<and> K < k + length (a # as)\<close> Cons.IH [OF step] upd
      show ?thesis by simp
    next
      case False
      with True have "Suc k \<le> K" and "K < Suc k + length as"
        and nth: "(a # as) ! (K - k) = as ! (K - Suc k)"
        by (auto simp add: nth_Cons')
      with True Cons.IH [OF step] show ?thesis by simp
    qed
  qed
qed


lemma graphGroups_cell:
  "graphGroups e qm gs i grps = Inr gs1 \<Longrightarrow>
   (if i = I \<and> (\<exists>grp\<in>set grps.
          SearchStrings (groups qm) (getGroupKey e (orderedGroupKeys qm) (Group grp)) = G
          \<and> K < length (Aggregations grp))
    then (\<exists>grp\<in>set grps.
          SearchStrings (groups qm) (getGroupKey e (orderedGroupKeys qm) (Group grp)) = G
          \<and> K < length (Aggregations grp)
          \<and> data (gs1 ! K) ! G ! I
              = (case Value (Aggregations grp ! K) of VFloat f \<Rightarrow> f | _ \<Rightarrow> NaN))
    else data (gs1 ! K) ! G ! I = data (gs ! K) ! G ! I)"
proof (induction grps arbitrary: gs)
  case Nil
  then show ?case by simp
next
  case (Cons grp grps)
  let ?idx = "\<lambda>grp. SearchStrings (groups qm) (getGroupKey e (orderedGroupKeys qm) (Group grp))"
  from Cons.prems obtain gs2 where
    ag: "graphAggs gs (?idx grp) i 0 (Aggregations grp) = Inr gs2"
    and rest: "graphGroups e qm gs2 i grps = Inr gs1"
    by (auto simp add: Let_def split: sum.splits)
  from graphAggs_cell [OF ag, of K G I]
  have c2: "data (gs2 ! K) ! G ! I
      = (if ?idx grp = G \<and> i = I \<and> K < length (Aggregations grp)
         then (case Value (Aggregations grp ! K) of VFloat f \<Rightarrow> f | _ \<Rightarrow> NaN)
         else data (gs ! K) ! G ! I)"
    by simp
  from Cons.IH [OF rest] c2 show ?case
    by (auto split: if_splits)
qed

lemma graphIntervals_cell:
  "graphIntervals e qm gs i0 ivs = Inr gs1 \<Longrightarrow>
   (if i0 \<le> I \<and> I < i0 + length ivs \<and> (\<exists>grp\<in>set (Groups (ivs ! (I - i0))).
          SearchStrings (groups qm) (getGroupKey e (orderedGroupKeys qm) (Group grp)) = G
          \<and> K < length (Aggregations grp))
    then (\<exists>grp\<in>set (Groups (ivs ! (I - i0))).
          SearchStrings (groups qm) (getGroupKey e (orderedGroupKeys qm) (Group grp)) = G
          \<and> K < length (Aggregations grp)
          \<and> data (gs1 ! K) ! G ! I
              = (case Value (Aggregations grp ! K) of VFloat f \<Rightarrow> f | _ \<Rightarrow> NaN))
    else data (gs1 ! K) ! G ! I = data (gs ! K) ! G ! I)"
proof (induction ivs arbitrary: gs i0)
  case Nil
  then show ?case by auto
next
  case (Cons iv ivs)
  from Cons.prems obtain gs2 where
    gg: "graphGroups e qm gs i0 (Groups iv) = Inr gs2"
    and rest: "graphIntervals e qm gs2 (Suc i0) ivs = Inr gs1"
    by (auto split: sum.splits)
  note c2 = graphGroups_cell [OF gg, of I G K]
  note c1 = Cons.IH [OF rest]
  show ?case
  proof (cases "I = i0")
    case True
    with c1 have "data (gs1 ! K) ! G ! I = data (gs2 ! K) ! G ! I"
      by simp
    with c2 True show ?thesis by (auto split: if_splits)
  next
    case False
    with c2 have same: "data (gs2 ! K) ! G ! I = data (gs ! K) ! G ! I"
      by simp
    show ?thesis
    proof (cases "i0 \<le> I")
      case True
      with False have "Suc i0 \<le> I" and "(iv # ivs) ! (I - i0) = ivs ! (I - Suc i0)"
        by (auto simp add: nth_Cons')
      with c1 same show ?thesis by (auto split: if_splits)
    next
      case False
      with c1 same show ?thesis by (auto split: if_splits)
    qed
  qed
qed


lemma UpdateQueryMeta_frame:
  "\<exists>q. UpdateQueryMeta e m r = m\<lparr>queryMeta := q\<rparr>"
  by (cases r) (auto simp add: UpdateQueryMeta_def Let_def split: prod.splits)

lemma UpdateQueryMeta_model:
  "queryMeta (UpdateQueryMeta e m r) = queryMeta (UpdateQueryMeta e m0 r)"
  by (cases r) (auto simp add: UpdateQueryMeta_def Let_def split: prod.splits)

lemma UpdateQueryMeta_intervals:
  assumes "queryMeta (UpdateQueryMeta e m (Some res)) = Some qm"
  shows "intervals qm = length (Series (Buckets res))"
  using assms
  by (auto simp add: UpdateQueryMeta_def Let_def split: if_splits prod.splits)

lemma makeGraphs_cell:
  assumes "makeGraphs m = Inr gs" and "queryMeta m = Some qm"
    and "K < length (ops qm)" and "G < length (groups qm)" and "I < intervals qm"
  shows "data (gs ! K) ! G ! I = Num 0"
  using assms by (auto simp add: makeGraphs_def)

lemma result_event_graphs:
  assumes "Update e m (ResultMsg a r er) = Inr (m1, c)" and "queryMeta m1 = Some qm"
  shows "\<exists>res m6 gs0 gs. r = Some res \<and> Series (Buckets res) \<noteq> []
           \<and> queryMeta (UpdateQueryMeta e m (Some res)) = Some qm
           \<and> queryMeta m6 = Some qm \<and> highlightedGroup m6 = []
           \<and> makeGraphs m6 = Inr gs0
           \<and> graphIntervals e qm gs0 0 (Series (Buckets res)) = Inr gs
           \<and> graphs m1 = Some gs"
proof -
  let ?m3 = "UpdateQuery (m\<lparr>textarea := (textarea m)\<lparr>taFocus := False\<rparr>,
                highlightedGroup := []\<rparr>) a r er"
  let ?m4 = "UpdateQueryMeta e ?m3 r"
  let ?m5 = "UpdateMatchesTable e ?m4 r"
  from result_event_steps [OF assms(1)] obtain m6 m7 where
    T: "UpdateTotals e ?m5 r = Inr m6" and G: "UpdateGraphs e m6 r = Inr m7"
    and m1: "m1 = m7\<lparr>refreshTimeout := 5, state := REFRESHING\<rparr>"
    by blast
  from UpdateTotals_frame [OF T] obtain t where m6: "m6 = ?m5\<lparr>totalsTable := t\<rparr>"
    by blast
  obtain mt where m5: "?m5 = ?m4\<lparr>matchesTableHighlightedIdx := -1, matchesTable := mt\<rparr>"
    using UpdateMatchesTable_shape by blast
  obtain q where m4: "?m4 = ?m3\<lparr>queryMeta := q\<rparr>"
    using UpdateQueryMeta_frame by blast
  have h6: "highlightedGroup m6 = []"
    unfolding m6 m5 unfolding m4 by (simp add: UpdateQuery_def)
  from m1 assms(2) UpdateGraphs_queryMeta [OF G] have q6: "queryMeta m6 = Some qm"
    by simp
  with m6 have q4: "queryMeta ?m4 = Some qm"
    by simp
  from UpdateQueryMeta_Some [OF q4] obtain res where r: "r = Some res"
    and ser: "Series (Buckets res) \<noteq> []"
    by blast
  from q4 r have qm: "queryMeta (UpdateQueryMeta e m (Some res)) = Some qm"
    using UpdateQueryMeta_model [of e m "Some res" ?m3] by simp
  from UpdateGraphs_Some [OF G [unfolded r] ser q6] obtain gs0 gs where
    "makeGraphs m6 = Inr gs0" and "graphIntervals e qm gs0 0 (Series (Buckets res)) = Inr gs"
    and "m7 = m6\<lparr>graphs := Some gs\<rparr>"
    by blast
  with m1 r ser qm q6 h6 show ?thesis
    by auto
qed

text \<open>
  C2 (as amended): after a response has been processed, a cell of a graph's matrix (graph
  \<open>k\<close>, row \<open>g\<close>, column \<open>i\<close>) that no entry group writes holds 0, the value a fresh matrix
  is filled with, and not NaN. An entry group of interval \<open>i\<close> writes the cell when its
  group key is found at row \<open>g\<close> and it has an aggregation at position \<open>k\<close>; a cell that is
  written holds the value of such an aggregation when that is a float, and NaN when it is
  not.
\<close>

theorem C2_graph_cells:
  assumes "Update e m (ResultMsg a (Some res) er) = Inr (m1, c)"
    and "queryMeta m1 = Some qm" and "graphs m1 = Some gs"
    and "k < length gs" and "g < length (groups qm)" and "i < intervals qm"
  shows "if \<exists>grp\<in>set (Groups (Series (Buckets res) ! i)).
              SearchStrings (groups qm) (getGroupKey e (orderedGroupKeys qm) (Group grp)) = g
              \<and> k < length (Aggregations grp)
         then \<exists>grp\<in>set (Groups (Series (Buckets res) ! i)).
              SearchStrings (groups qm) (getGroupKey e (orderedGroupKeys qm) (Group grp)) = g
              \<and> k < length (Aggregations grp)
              \<and> data (gs ! k) ! g ! i
                  = (case Value (Aggregations grp ! k) of VFloat f \<Rightarrow> f | _ \<Rightarrow> NaN)
         else data (gs ! k) ! g ! i = Num 0"
proof -
  let ?W = "\<exists>grp\<in>set (Groups (Series (Buckets res) ! i)).
              SearchStrings (groups qm) (getGroupKey e (orderedGroupKeys qm) (Group grp)) = g
              \<and> k < length (Aggregations grp)"
  from result_event_graphs [OF assms(1,2)] assms(3) obtain m6 gs0 where
    qm: "queryMeta (UpdateQueryMeta e m (Some res)) = Some qm"
    and q6: "queryMeta m6 = Some qm"
    and mk: "makeGraphs m6 = Inr gs0"
    and gi: "graphIntervals e qm gs0 0 (Series (Buckets res)) = Inr gs"
    by auto
  from UpdateQueryMeta_intervals [OF qm] assms(6) have i: "i < length (Series (Buckets res))"
    by simp
  from map_eq_imp_length_eq [OF trans [OF graphIntervals_frame [OF gi] makeGraphs_shape [OF mk q6]]]
  have "length gs = length (ops qm)" .
  with assms(4) have "k < length (ops qm)"
    by simp
  from makeGraphs_cell [OF mk q6 this assms(5,6)] have init: "data (gs0 ! k) ! g ! i = Num 0" .
  note cell = graphIntervals_cell [OF gi, of i g k]
  show ?thesis
  proof (cases ?W)
    case True
    with cell i have "\<exists>grp\<in>set (Groups (Series (Buckets res) ! i)).
              SearchStrings (groups qm) (getGroupKey e (orderedGroupKeys qm) (Group grp)) = g
              \<and> k < length (Aggregations grp)
              \<and> data (gs ! k) ! g ! i
                  = (case Value (Aggregations grp ! k) of VFloat f \<Rightarrow> f | _ \<Rightarrow> NaN)"
      by simp
    then show ?thesis
      by (simp only: if_P [OF True])
  next
    case False
    with cell i init have "data (gs ! k) ! g ! i = Num 0"
      by simp
    then show ?thesis
      by (simp only: if_not_P [OF False])
  qed
qed


theorem C2_graph_cells_witness:
  "\<not> isl (Update env0 mReady (ResultMsg ''q'' (Some resMissing) None))
   \<and> (\<exists>qm gs. queryMeta (fst (projr (Update env0 mReady (ResultMsg ''q'' (Some resMissing) None))))
                  = Some qm
        \<and> graphs (fst (projr (Update env0 mReady (ResultMsg ''q'' (Some resMissing) None))))
                  = Some gs
        \<and> 0 < length gs \<and> 1 < length (groups qm) \<and> 1 < intervals qm
        \<and> \<not> (\<exists>grp\<in>set (Groups (Series (Buckets resMissing) ! 1)).
              SearchStrings (groups qm) (getGroupKey env0 (orderedGroupKeys qm) (Group grp)) = 1
              \<and> 0 < length (Aggregations grp))
        \<and> data (gs ! 0) ! 1 ! 1 = Num 0)"
proof -
  let ?u = "Update env0 mReady (ResultMsg ''q'' (Some resMissing) None)"
  have ok: "\<not> isl ?u"
    by code_simp
  then have u: "?u = Inr (fst (projr ?u), snd (projr ?u))"
    by (cases ?u) simp_all
  have meta: "map_option (\<lambda>q. (orderedGroupKeys q, groups q, intervals q))
        (queryMeta (fst (projr ?u))) = Some ([''svc''], [''a'', ''b''], 2)"
    by code_simp
  then obtain qm where qm: "queryMeta (fst (projr ?u)) = Some qm"
    and oks: "orderedGroupKeys qm = [''svc'']" and gr: "groups qm = [''a'', ''b'']"
    and iv: "intervals qm = 2"
    by auto
  have "map_option length (graphs (fst (projr ?u))) = Some 1"
    by code_simp
  then obtain gs where gs: "graphs (fst (projr ?u)) = Some gs" and len: "length gs = 1"
    by auto
  have noW: "\<not> (\<exists>grp\<in>set (Groups (Series (Buckets resMissing) ! 1)).
              SearchStrings [''a'', ''b''] (getGroupKey env0 [''svc''] (Group grp)) = 1
              \<and> 0 < length (Aggregations grp))"
    by code_simp
  have noW1: "\<not> (\<exists>grp\<in>set (Groups (Series (Buckets resMissing) ! 1)).
              SearchStrings (groups qm) (getGroupKey env0 (orderedGroupKeys qm) (Group grp)) = 1
              \<and> 0 < length (Aggregations grp))"
    unfolding gr oks by (rule noW)
  have k: "0 < length gs" and g: "1 < length (groups qm)" and i: "1 < intervals qm"
    using len gr iv by simp_all
  from C2_graph_cells [OF u qm gs k g i]
  have "data (gs ! 0) ! 1 ! 1 = Num 0"
    by (simp only: if_not_P [OF noW1])
  with ok qm gs k g i noW1 show ?thesis
    by blast
qed

text \<open>
  C2 as stated fails on its own example: with both groups in interval 0 (10 and 20) and only
  \<open>a\<close> in interval 1 (15), the matrix is \<open>[[10, 15], [20, 0]]\<close>; the missing cell is 0, not
  NaN.
\<close>

theorem C2_counterexample:
  "\<not> isl (Update env0 mReady (ResultMsg ''q'' (Some resMissing) None))
   \<and> map_option (map data)
        (graphs (fst (projr (Update env0 mReady (ResultMsg ''q'' (Some resMissing) None)))))
      = Some [[[Num 10, Num 15], [Num 20, Num 0]]]
   \<and> [[Num 10, Num 15], [Num 20, Num 0]] \<noteq> [[Num 10, Num 15], [Num 20, NaN]]"
  by code_simp

end
